theory Spec2Isabelle
  imports Main "HOL-Library.Word"
begin

section \<open>Data model of smart\_traffic\_system.c\<close>

text \<open>
  The enums of the source. \<open>Direction\<close> is also the index type of the two arrays
  \<open>lights[4]\<close> and \<open>sensors[4]\<close>: \<open>NORTH = 0\<close>, \<open>SOUTH = 1\<close>, \<open>EAST = 2\<close>,
  \<open>WEST = 3\<close>.
\<close>

datatype Direction = NORTH | SOUTH | EAST | WEST

datatype LightState = RED | GREEN | YELLOW

text \<open>
  A C \<open>int\<close> is a 32-bit word read as two's complement: \<open>+\<close> and \<open>-\<close> wrap, the
  comparisons are the signed ones (\<open><s\<close>, \<open>\<le>s\<close>). \<open>time_t\<close> is a 64-bit word.
\<close>

type_synonym c_int = "32 word"

type_synonym time_t = "64 word"

record TrafficLight =
  state :: LightState
  duration :: c_int
  direction :: Direction

record VehicleSensor =
  vehicleDetected :: bool
  sensor_direction :: Direction
  detectionTime :: time_t

text \<open>The arrays of four elements are functions from the index.\<close>

record TrafficSystem =
  lights :: "Direction \<Rightarrow> TrafficLight"
  sensors :: "Direction \<Rightarrow> VehicleSensor"
  greenDuration :: c_int
  yellowDuration :: c_int
  minGreenTime :: c_int
  maxGreenTime :: c_int
  emergencyMode :: bool

text \<open>
  The whole mutable state of the program: the struct that \<open>main\<close> owns and the
  \<open>static time_t lastChange\<close> of \<open>controlLights\<close>.
\<close>

record Controller =
  system :: TrafficSystem
  lastChange :: time_t

text \<open>The index range of every \<open>for (int i = 0; i < 4; i++)\<close> loop, in order.\<close>

definition indices :: "Direction list" where
  "indices = [NORTH, SOUTH, EAST, WEST]"

section \<open>The operations\<close>

subsection \<open>initializeSystem\<close>

definition init_light :: "Direction \<Rightarrow> TrafficSystem \<Rightarrow> TrafficSystem" where
  "init_light i s =
     s\<lparr>lights := (lights s)(i := (lights s i)\<lparr>state := RED, duration := 0, direction := i\<rparr>)\<rparr>"

definition init_sensor :: "Direction \<Rightarrow> TrafficSystem \<Rightarrow> TrafficSystem" where
  "init_sensor i s =
     s\<lparr>sensors := (sensors s)(i := (sensors s i)
        \<lparr>vehicleDetected := False, sensor_direction := i, detectionTime := 0\<rparr>)\<rparr>"

text \<open>
  The argument is the memory the caller passes, whatever it holds (\<open>main\<close> passes an
  uninitialised struct).
\<close>

definition initializeSystem :: "TrafficSystem \<Rightarrow> TrafficSystem" where
  "initializeSystem s =
     (let s1 = fold init_light indices s;
          s2 = fold init_sensor indices s1
      in s2\<lparr>greenDuration := 30, yellowDuration := 5, minGreenTime := 10,
            maxGreenTime := 60, emergencyMode := False\<rparr>)"

subsection \<open>updateSensors\<close>

text \<open>The first argument is the value that \<open>time(NULL)\<close> returns.\<close>

definition updateSensors :: "time_t \<Rightarrow> TrafficSystem \<Rightarrow> Direction \<Rightarrow> bool \<Rightarrow> TrafficSystem" where
  "updateSensors now s dir detected =
     (let s1 = s\<lparr>sensors := (sensors s)(dir := (sensors s dir)\<lparr>vehicleDetected := detected\<rparr>)\<rparr>
      in if detected
         then s1\<lparr>sensors := (sensors s1)(dir := (sensors s1 dir)\<lparr>detectionTime := now\<rparr>)\<rparr>
         else s1)"

subsection \<open>calculateDensity and adjustTiming\<close>

definition calculateDensity :: "TrafficSystem \<Rightarrow> Direction \<Rightarrow> Direction \<Rightarrow> c_int" where
  "calculateDensity s primary secondary =
     (let density = 0;
          density = (if vehicleDetected (sensors s primary) then density + 3 else density);
          density = (if vehicleDetected (sensors s secondary) then density + 3 else density)
      in density)"

definition set_duration :: "Direction \<Rightarrow> c_int \<Rightarrow> TrafficSystem \<Rightarrow> TrafficSystem" where
  "set_duration i v s = s\<lparr>lights := (lights s)(i := (lights s i)\<lparr>duration := v\<rparr>)\<rparr>"

text \<open>The body of the second loop of \<open>adjustTiming\<close>: two tests, one after the other.\<close>

definition limit_light :: "Direction \<Rightarrow> TrafficSystem \<Rightarrow> TrafficSystem" where
  "limit_light i s =
     (let s1 = (if duration (lights s i) <s minGreenTime s
                then set_duration i (minGreenTime s) s else s)
      in if maxGreenTime s1 <s duration (lights s1 i)
         then set_duration i (maxGreenTime s1) s1 else s1)"

definition adjustTiming :: "TrafficSystem \<Rightarrow> TrafficSystem" where
  "adjustTiming s =
     (let nsDensity = calculateDensity s NORTH SOUTH;
          ewDensity = calculateDensity s EAST WEST;
          baseTime = greenDuration s;
          s1 = (if ewDensity + 4 <s nsDensity then
                  (let a = set_duration NORTH (baseTime + 15) s;
                       b = set_duration SOUTH (baseTime + 15) a;
                       c = set_duration EAST (baseTime - 10) b
                   in set_duration WEST (baseTime - 10) c)
                else if nsDensity + 4 <s ewDensity then
                  (let a = set_duration EAST (baseTime + 15) s;
                       b = set_duration WEST (baseTime + 15) a;
                       c = set_duration NORTH (baseTime - 10) b
                   in set_duration SOUTH (baseTime - 10) c)
                else fold (\<lambda>i. set_duration i baseTime) indices s)
      in fold limit_light indices s1)"

subsection \<open>controlLights\<close>

text \<open>
  The search loop for the first green light; \<open>None\<close> is the source's
  \<open>activeGreen == -1\<close>.
\<close>

fun find_green :: "(Direction \<Rightarrow> TrafficLight) \<Rightarrow> Direction list \<Rightarrow> Direction option" where
  "find_green ls [] = None"
| "find_green ls (i # rest) = (if state (ls i) = GREEN then Some i else find_green ls rest)"

definition set_state :: "Direction \<Rightarrow> LightState \<Rightarrow> TrafficSystem \<Rightarrow> TrafficSystem" where
  "set_state i v s = s\<lparr>lights := (lights s)(i := (lights s i)\<lparr>state := v\<rparr>)\<rparr>"

text \<open>
  \<open>int elapsed = currentTime - lastChange\<close>: the difference of two \<open>time_t\<close>, cut to
  the 32 bits of an \<open>int\<close>.
\<close>

definition elapsed_since :: "time_t \<Rightarrow> time_t \<Rightarrow> c_int" where
  "elapsed_since currentTime previous = ucast (currentTime - previous)"

text \<open>
  One call of \<open>controlLights\<close>; \<open>currentTime\<close> is what \<open>time(NULL)\<close> returns. The
  \<open>printf\<close> of the emergency branch is output only and is left out.
\<close>

definition controlLights :: "time_t \<Rightarrow> Controller \<Rightarrow> Controller" where
  "controlLights currentTime c =
     (let s = system c;
          elapsed = elapsed_since currentTime (lastChange c);
          activeGreen = find_green (lights s) indices
      in if emergencyMode s then
           (let s1 = fold (\<lambda>i. set_state i RED) indices s;
                s2 = set_state NORTH GREEN s1;
                s3 = set_state SOUTH GREEN s2
            in c\<lparr>system := s3\<rparr>)
         else if (case activeGreen of None \<Rightarrow> True
                  | Some g \<Rightarrow> duration (lights s g) \<le>s elapsed) then
           (if (case activeGreen of None \<Rightarrow> False
                | Some g \<Rightarrow> state (lights s g) = GREEN) then
              (case activeGreen of None \<Rightarrow> c
               | Some g \<Rightarrow>
                  (let s1 = set_state g YELLOW s;
                       s2 = set_state (if g = NORTH then SOUTH else g) YELLOW s1
                   in \<lparr>system = s2, lastChange = currentTime\<rparr>))
            else
              (let s1 = (if activeGreen = Some NORTH \<or> activeGreen = Some SOUTH then
                           (let a = set_state EAST GREEN s;
                                b = set_state WEST GREEN a;
                                d = set_state NORTH RED b
                            in set_state SOUTH RED d)
                         else
                           (let a = set_state NORTH GREEN s;
                                b = set_state SOUTH GREEN a;
                                d = set_state EAST RED b
                            in set_state WEST RED d))
               in \<lparr>system = adjustTiming s1, lastChange = currentTime\<rparr>))
         else c)"

subsection \<open>Runs of the program\<close>

text \<open>
  What can happen to the state after start-up: a call of \<open>controlLights\<close> at some
  time, a call of \<open>updateSensors\<close> at some time, and a write of the emergency flag
  (the assignments in \<open>main\<close>).
\<close>

datatype Event = Tick time_t | Sensor time_t Direction bool | Emergency bool

fun step :: "Event \<Rightarrow> Controller \<Rightarrow> Controller" where
  "step (Tick now) c = controlLights now c"
| "step (Sensor now dir detected) c = c\<lparr>system := updateSensors now (system c) dir detected\<rparr>"
| "step (Emergency b) c = c\<lparr>system := (system c)\<lparr>emergencyMode := b\<rparr>\<rparr>"

text \<open>
  Start-up: \<open>initializeSystem\<close> on the memory \<open>mem\<close> of the struct, with the static
  \<open>lastChange\<close> at its initial value 0.
\<close>

definition startup :: "TrafficSystem \<Rightarrow> Controller" where
  "startup mem = \<lparr>system = initializeSystem mem, lastChange = 0\<rparr>"

definition run :: "TrafficSystem \<Rightarrow> Event list \<Rightarrow> Controller" where
  "run mem evs = fold step evs (startup mem)"

text \<open>A concrete memory for the examples: every byte zero.\<close>

definition zero_memory :: TrafficSystem where
  "zero_memory =
     \<lparr>lights = (\<lambda>i. \<lparr>state = RED, duration = 0, direction = NORTH\<rparr>),
      sensors = (\<lambda>i. \<lparr>vehicleDetected = False, sensor_direction = NORTH, detectionTime = 0\<rparr>),
      greenDuration = 0, yellowDuration = 0, minGreenTime = 0, maxGreenTime = 0,
      emergencyMode = False\<rparr>"

definition busy_ns :: TrafficSystem where
  "busy_ns =
     updateSensors 7 (updateSensors 7 (initializeSystem zero_memory) NORTH True) SOUTH True"

section \<open>Auxiliary notions\<close>

text \<open>
  The two tests of the limiting loop of \<open>adjustTiming\<close> on one value, in the order of
  the source: first against the minimum, then against the maximum.
\<close>

definition limit :: "c_int \<Rightarrow> c_int \<Rightarrow> c_int \<Rightarrow> c_int" where
  "limit lo hi x = (let y = (if x <s lo then lo else x) in if hi <s y then hi else y)"

text \<open>What the first part of \<open>adjustTiming\<close> writes into \<open>lights[d].duration\<close>.\<close>

definition assigned :: "TrafficSystem \<Rightarrow> Direction \<Rightarrow> c_int" where
  "assigned s d =
     (if calculateDensity s EAST WEST + 4 <s calculateDensity s NORTH SOUTH then
        (if d = NORTH \<or> d = SOUTH then greenDuration s + 15 else greenDuration s - 10)
      else if calculateDensity s NORTH SOUTH + 4 <s calculateDensity s EAST WEST then
        (if d = NORTH \<or> d = SOUTH then greenDuration s - 10 else greenDuration s + 15)
      else greenDuration s)"

subsection \<open>The timing policy as the specification words it\<close>

text \<open>
  These three definitions follow section 4.2 of the specification, not the source:
  the density of an axis is 3 for each direction with presence, the planned duration
  is \<open>base + 15\<close>, \<open>base - 10\<close> or \<open>base\<close>, and the result is clamped into
  \<open>[lo, hi]\<close>. The arithmetic on durations is that of the source's \<open>int\<close>.
\<close>

definition clamp_spec :: "c_int \<Rightarrow> c_int \<Rightarrow> c_int \<Rightarrow> c_int" where
  "clamp_spec lo hi x = (if x <s lo then lo else if hi <s x then hi else x)"

definition density_spec :: "bool \<Rightarrow> bool \<Rightarrow> int" where
  "density_spec p q = 3 * of_bool p + 3 * of_bool q"

definition computeDurations_spec ::
  "(Direction \<Rightarrow> bool) \<Rightarrow> c_int \<Rightarrow> c_int \<Rightarrow> c_int \<Rightarrow> Direction \<Rightarrow> c_int" where
  "computeDurations_spec presence base lo hi d =
     (let densityNS = density_spec (presence NORTH) (presence SOUTH);
          densityEW = density_spec (presence EAST) (presence WEST);
          ns_axis = (d = NORTH \<or> d = SOUTH);
          planned = (if densityNS > densityEW + 4 then
                       (if ns_axis then base + 15 else base - 10)
                     else if densityEW > densityNS + 4 then
                       (if ns_axis then base - 10 else base + 15)
                     else base)
      in clamp_spec lo hi planned)"

subsection \<open>The blocks of controlLights\<close>

text \<open>
  Names for the three groups of assignments in \<open>controlLights\<close>: the emergency
  override, the switch to yellow for the green light found at index \<open>g\<close>, and the
  \<open>else\<close> branch "Switch to NORTH-SOUTH".
\<close>

definition force_ns :: "TrafficSystem \<Rightarrow> TrafficSystem" where
  "force_ns s =
     set_state SOUTH GREEN (set_state NORTH GREEN (fold (\<lambda>i. set_state i RED) indices s))"

definition to_yellow :: "Direction \<Rightarrow> TrafficSystem \<Rightarrow> TrafficSystem" where
  "to_yellow g s = set_state (if g = NORTH then SOUTH else g) YELLOW (set_state g YELLOW s)"

definition to_ns_green :: "TrafficSystem \<Rightarrow> TrafficSystem" where
  "to_ns_green s =
     set_state WEST RED (set_state EAST RED (set_state SOUTH GREEN (set_state NORTH GREEN s)))"

subsection \<open>Invariants\<close>

text \<open>North and South agree, and East and West are red.\<close>

definition ns_cycle :: "TrafficSystem \<Rightarrow> bool" where
  "ns_cycle s = (state (lights s NORTH) = state (lights s SOUTH)
                 \<and> state (lights s EAST) = RED \<and> state (lights s WEST) = RED)"

definition durations_paired :: "TrafficSystem \<Rightarrow> bool" where
  "durations_paired s = (duration (lights s NORTH) = duration (lights s SOUTH)
                         \<and> duration (lights s EAST) = duration (lights s WEST))"

text \<open>The values that \<open>initializeSystem\<close> writes into the configuration fields.\<close>

definition default_config :: "TrafficSystem \<Rightarrow> bool" where
  "default_config s = (greenDuration s = 30 \<and> yellowDuration s = 5
                       \<and> minGreenTime s = 10 \<and> maxGreenTime s = 60)"

text \<open>
  The configuration invariant of the specification (section 3):
  \<open>0 < minGreenSeconds \<le> baseGreenSeconds \<le> maxGreenSeconds\<close>.
\<close>

definition config_valid :: "TrafficSystem \<Rightarrow> bool" where
  "config_valid s =
     (0 <s minGreenTime s \<and> minGreenTime s \<le>s greenDuration s
      \<and> greenDuration s \<le>s maxGreenTime s)"

subsection \<open>Concrete states for the examples\<close>

text \<open>The initial system with its minimum green time above the base green time.\<close>

definition bad_config :: Controller where
  "bad_config =
     \<lparr>system = (initializeSystem zero_memory)\<lparr>minGreenTime := 50\<rparr>, lastChange = 0\<rparr>"

text \<open>
  East and West green, North and South red, every duration 30, the last change at
  time 100.
\<close>

definition ew_green_example :: Controller where
  "ew_green_example =
     \<lparr>system = (initializeSystem zero_memory)
        \<lparr>lights := (\<lambda>i. \<lparr>state = (if i = EAST \<or> i = WEST then GREEN else RED),
                           duration = 30, direction = i\<rparr>)\<rparr>,
      lastChange = 100\<rparr>"

text \<open>The same state with the emergency flag raised.\<close>

definition emergency_example :: Controller where
  "emergency_example = step (Emergency True) ew_green_example"

section \<open>The sensor update\<close>

text \<open>
  C9. For every direction \<open>d\<close> and boolean \<open>detected\<close>, \<open>updateSensors\<close> sets
  \<open>sensors[d].vehicleDetected\<close> to \<open>detected\<close>; \<open>sensors[d].detectionTime\<close> becomes
  the current time when \<open>detected\<close> is true and keeps its value when it is false; the
  call always returns, and nothing else changes: the sensor's direction field, the
  sensors of the other directions, all lights, the four configuration fields and the
  emergency flag.
\<close>

theorem updateSensors_frame:
  "vehicleDetected (sensors (updateSensors now s d detected) d) = detected
   \<and> detectionTime (sensors (updateSensors now s d detected) d)
       = (if detected then now else detectionTime (sensors s d))
   \<and> sensor_direction (sensors (updateSensors now s d detected) d)
       = sensor_direction (sensors s d)
   \<and> (\<forall>d'. d' \<noteq> d \<longrightarrow> sensors (updateSensors now s d detected) d' = sensors s d')
   \<and> lights (updateSensors now s d detected) = lights s
   \<and> greenDuration (updateSensors now s d detected) = greenDuration s
   \<and> yellowDuration (updateSensors now s d detected) = yellowDuration s
   \<and> minGreenTime (updateSensors now s d detected) = minGreenTime s
   \<and> maxGreenTime (updateSensors now s d detected) = maxGreenTime s
   \<and> emergencyMode (updateSensors now s d detected) = emergencyMode s"
  by (simp add: updateSensors_def Let_def)

theorem updateSensors_frame_witness:
  "SOUTH \<noteq> NORTH
   \<and> vehicleDetected (sensors (updateSensors 7 (initializeSystem zero_memory) NORTH True) NORTH)
   \<and> detectionTime (sensors (updateSensors 7 (initializeSystem zero_memory) NORTH True) NORTH) = 7
   \<and> sensors (updateSensors 7 (initializeSystem zero_memory) NORTH True) SOUTH
       = sensors (initializeSystem zero_memory) SOUTH"
  using updateSensors_frame [of 7 "initializeSystem zero_memory" NORTH True] by simp

section \<open>The timing policy\<close>

lemma limit_light_fields:
  "sensors (limit_light i s) = sensors s"
  "greenDuration (limit_light i s) = greenDuration s"
  "yellowDuration (limit_light i s) = yellowDuration s"
  "minGreenTime (limit_light i s) = minGreenTime s"
  "maxGreenTime (limit_light i s) = maxGreenTime s"
  "emergencyMode (limit_light i s) = emergencyMode s"
  "state (lights (limit_light i s) d) = state (lights s d)"
  "direction (lights (limit_light i s) d) = direction (lights s d)"
  by (simp_all add: limit_light_def set_duration_def Let_def)

lemma limit_light_duration:
  "duration (lights (limit_light i s) d) =
     (if d = i then limit (minGreenTime s) (maxGreenTime s) (duration (lights s d))
      else duration (lights s d))"
  by (simp add: limit_light_def set_duration_def Let_def limit_def)

lemma fold_limit_fields:
  "sensors (fold limit_light indices s) = sensors s"
  "greenDuration (fold limit_light indices s) = greenDuration s"
  "yellowDuration (fold limit_light indices s) = yellowDuration s"
  "minGreenTime (fold limit_light indices s) = minGreenTime s"
  "maxGreenTime (fold limit_light indices s) = maxGreenTime s"
  "emergencyMode (fold limit_light indices s) = emergencyMode s"
  "state (lights (fold limit_light indices s) d) = state (lights s d)"
  "direction (lights (fold limit_light indices s) d) = direction (lights s d)"
  by (simp_all add: indices_def limit_light_fields)

lemma fold_limit_duration:
  "duration (lights (fold limit_light indices s) d) =
     limit (minGreenTime s) (maxGreenTime s) (duration (lights s d))"
  by (cases d) (simp_all add: indices_def limit_light_fields limit_light_duration)

lemma set_duration_fields:
  "sensors (set_duration i v s) = sensors s"
  "greenDuration (set_duration i v s) = greenDuration s"
  "yellowDuration (set_duration i v s) = yellowDuration s"
  "minGreenTime (set_duration i v s) = minGreenTime s"
  "maxGreenTime (set_duration i v s) = maxGreenTime s"
  "emergencyMode (set_duration i v s) = emergencyMode s"
  "state (lights (set_duration i v s) d) = state (lights s d)"
  "direction (lights (set_duration i v s) d) = direction (lights s d)"
  "duration (lights (set_duration i v s) d) = (if d = i then v else duration (lights s d))"
  by (simp_all add: set_duration_def)

lemma fold_set_duration_fields:
  "sensors (fold (\<lambda>i. set_duration i v) indices s) = sensors s"
  "greenDuration (fold (\<lambda>i. set_duration i v) indices s) = greenDuration s"
  "yellowDuration (fold (\<lambda>i. set_duration i v) indices s) = yellowDuration s"
  "minGreenTime (fold (\<lambda>i. set_duration i v) indices s) = minGreenTime s"
  "maxGreenTime (fold (\<lambda>i. set_duration i v) indices s) = maxGreenTime s"
  "emergencyMode (fold (\<lambda>i. set_duration i v) indices s) = emergencyMode s"
  "state (lights (fold (\<lambda>i. set_duration i v) indices s) d) = state (lights s d)"
  "direction (lights (fold (\<lambda>i. set_duration i v) indices s) d) = direction (lights s d)"
  by (simp_all add: indices_def set_duration_fields)

lemma fold_set_duration_duration:
  "duration (lights (fold (\<lambda>i. set_duration i v) indices s) d) = v"
  by (cases d) (simp_all add: indices_def set_duration_fields)

text \<open>\<open>adjustTiming\<close> writes durations only.\<close>

lemma adjustTiming_fields:
  "sensors (adjustTiming s) = sensors s"
  "greenDuration (adjustTiming s) = greenDuration s"
  "yellowDuration (adjustTiming s) = yellowDuration s"
  "minGreenTime (adjustTiming s) = minGreenTime s"
  "maxGreenTime (adjustTiming s) = maxGreenTime s"
  "emergencyMode (adjustTiming s) = emergencyMode s"
  "state (lights (adjustTiming s) d) = state (lights s d)"
  "direction (lights (adjustTiming s) d) = direction (lights s d)"
  by (simp_all add: adjustTiming_def Let_def fold_limit_fields set_duration_fields
      fold_set_duration_fields)

text \<open>Every duration after \<open>adjustTiming\<close>, for any configuration.\<close>

lemma adjustTiming_duration:
  "duration (lights (adjustTiming s) d) =
     limit (minGreenTime s) (maxGreenTime s) (assigned s d)"
  by (cases d) (simp_all add: adjustTiming_def Let_def fold_limit_fields fold_limit_duration
      assigned_def set_duration_fields fold_set_duration_fields fold_set_duration_duration)

lemma calculateDensity_sint:
  "sint (calculateDensity s a b) =
     density_spec (vehicleDetected (sensors s a)) (vehicleDetected (sensors s b))"
  by (simp add: calculateDensity_def density_spec_def Let_def)

lemma density_test:
  "(calculateDensity s a b + 4 <s calculateDensity s a' b') =
   (density_spec (vehicleDetected (sensors s a')) (vehicleDetected (sensors s b'))
      > density_spec (vehicleDetected (sensors s a)) (vehicleDetected (sensors s b)) + 4)"
  by (simp add: calculateDensity_def density_spec_def Let_def word_sless_alt)

lemma limit_clamp: "lo \<le>s hi \<Longrightarrow> limit lo hi x = clamp_spec lo hi x"
  by (auto simp: limit_def clamp_spec_def Let_def word_sless_alt word_sle_eq)

text \<open>Without \<open>lo \<le>s hi\<close> the two differ: the source's second test wins.\<close>

lemma limit_inverted: "hi <s lo \<Longrightarrow> limit lo hi x = hi"
  by (auto simp: limit_def Let_def word_sless_alt)

lemma clamp_spec_range:
  "lo \<le>s hi \<Longrightarrow> lo \<le>s clamp_spec lo hi x \<and> clamp_spec lo hi x \<le>s hi"
  by (auto simp: clamp_spec_def word_sless_alt word_sle_eq)

lemma clamp_spec_bounds:
  "lo \<le>s hi \<Longrightarrow> clamp_spec lo hi lo = lo \<and> clamp_spec lo hi hi = hi"
  by (auto simp: clamp_spec_def word_sless_alt word_sle_eq)

lemma limit_assigned:
  "limit lo hi (assigned s d) =
   (let densityNS = density_spec (vehicleDetected (sensors s NORTH))
                      (vehicleDetected (sensors s SOUTH));
        densityEW = density_spec (vehicleDetected (sensors s EAST))
                      (vehicleDetected (sensors s WEST));
        ns_axis = (d = NORTH \<or> d = SOUTH);
        planned = (if densityNS > densityEW + 4 then
                     (if ns_axis then greenDuration s + 15 else greenDuration s - 10)
                   else if densityEW > densityNS + 4 then
                     (if ns_axis then greenDuration s - 10 else greenDuration s + 15)
                   else greenDuration s)
    in limit lo hi planned)"
  by (simp add: assigned_def density_test Let_def)

text \<open>
  C6. For every sensor snapshot and every configuration with
  \<open>minGreenTime \<le> maxGreenTime\<close>, the duration that \<open>adjustTiming\<close> leaves in each
  light is the one the specification's \<open>computeDurations\<close> gives: with the density of
  an axis being 3 for each of its directions with a detected vehicle, \<open>base + 15\<close> for
  North/South and \<open>base - 10\<close> for East/West when the North/South density exceeds the
  East/West density by more than 4, the mirror image when East/West exceeds
  North/South by more than 4, \<open>base\<close> for all four otherwise, each then clamped into
  \<open>[minGreenTime, maxGreenTime]\<close>. Every resulting duration lies in that interval,
  and the values \<open>minGreenTime\<close> and \<open>maxGreenTime\<close> themselves are not changed by the
  clamping.
\<close>

theorem adjustTiming_refines_computeDurations:
  assumes "minGreenTime s \<le>s maxGreenTime s"
  shows "sint (calculateDensity s NORTH SOUTH)
           = density_spec (vehicleDetected (sensors s NORTH)) (vehicleDetected (sensors s SOUTH))
       \<and> sint (calculateDensity s EAST WEST)
           = density_spec (vehicleDetected (sensors s EAST)) (vehicleDetected (sensors s WEST))
       \<and> duration (lights (adjustTiming s) d)
           = computeDurations_spec (\<lambda>i. vehicleDetected (sensors s i))
               (greenDuration s) (minGreenTime s) (maxGreenTime s) d
       \<and> minGreenTime s \<le>s duration (lights (adjustTiming s) d)
       \<and> duration (lights (adjustTiming s) d) \<le>s maxGreenTime s
       \<and> clamp_spec (minGreenTime s) (maxGreenTime s) (minGreenTime s) = minGreenTime s
       \<and> clamp_spec (minGreenTime s) (maxGreenTime s) (maxGreenTime s) = maxGreenTime s"
proof -
  have dur: "duration (lights (adjustTiming s) d)
           = computeDurations_spec (\<lambda>i. vehicleDetected (sensors s i))
               (greenDuration s) (minGreenTime s) (maxGreenTime s) d"
    unfolding adjustTiming_duration limit_assigned computeDurations_spec_def Let_def
    by (simp add: limit_clamp [OF assms])
  have rng: "minGreenTime s \<le>s duration (lights (adjustTiming s) d)
       \<and> duration (lights (adjustTiming s) d) \<le>s maxGreenTime s"
    unfolding dur computeDurations_spec_def Let_def
    by (rule clamp_spec_range [OF assms])
  show ?thesis
    using dur rng clamp_spec_bounds [OF assms] by (simp add: calculateDensity_sint)
qed

lemma busy_ns_config:
  "minGreenTime busy_ns = 10" "maxGreenTime busy_ns = 60" "greenDuration busy_ns = 30"
  by (simp_all add: busy_ns_def updateSensors_def initializeSystem_def Let_def)

lemma busy_ns_sensors:
  "vehicleDetected (sensors busy_ns NORTH)" "vehicleDetected (sensors busy_ns SOUTH)"
  "\<not> vehicleDetected (sensors busy_ns EAST)" "\<not> vehicleDetected (sensors busy_ns WEST)"
  by (simp_all add: busy_ns_def updateSensors_def initializeSystem_def Let_def
      zero_memory_def indices_def init_light_def init_sensor_def)

theorem adjustTiming_refines_computeDurations_witness:
  "minGreenTime busy_ns \<le>s maxGreenTime busy_ns
   \<and> duration (lights (adjustTiming busy_ns) NORTH) = 45
   \<and> duration (lights (adjustTiming busy_ns) EAST) = 20
   \<and> minGreenTime busy_ns \<le>s duration (lights (adjustTiming busy_ns) NORTH)
   \<and> duration (lights (adjustTiming busy_ns) NORTH) \<le>s maxGreenTime busy_ns"
proof -
  have h: "minGreenTime busy_ns \<le>s maxGreenTime busy_ns"
    by (simp add: busy_ns_config word_sle_eq)
  show ?thesis
    using h adjustTiming_refines_computeDurations [OF h, of NORTH]
      adjustTiming_refines_computeDurations [OF h, of EAST]
    by (simp add: busy_ns_config busy_ns_sensors computeDurations_spec_def density_spec_def
        clamp_spec_def Let_def word_sless_alt)
qed

section \<open>The four cases of controlLights\<close>

lemma set_state_fields:
  "sensors (set_state i v s) = sensors s"
  "greenDuration (set_state i v s) = greenDuration s"
  "yellowDuration (set_state i v s) = yellowDuration s"
  "minGreenTime (set_state i v s) = minGreenTime s"
  "maxGreenTime (set_state i v s) = maxGreenTime s"
  "emergencyMode (set_state i v s) = emergencyMode s"
  "duration (lights (set_state i v s) d) = duration (lights s d)"
  "direction (lights (set_state i v s) d) = direction (lights s d)"
  "state (lights (set_state i v s) d) = (if d = i then v else state (lights s d))"
  by (simp_all add: set_state_def)

lemma find_green_Some: "find_green ls xs = Some g \<Longrightarrow> state (ls g) = GREEN"
  by (induction xs) (auto split: if_splits)

lemma controlLights_emergency:
  "emergencyMode (system c) \<Longrightarrow> controlLights now c = c\<lparr>system := force_ns (system c)\<rparr>"
  by (simp add: controlLights_def Let_def force_ns_def)

lemma controlLights_hold:
  "\<not> emergencyMode (system c) \<Longrightarrow> find_green (lights (system c)) indices = Some g \<Longrightarrow>
   elapsed_since now (lastChange c) <s duration (lights (system c) g) \<Longrightarrow>
   controlLights now c = c"
  by (simp add: controlLights_def Let_def signed.not_le)

lemma controlLights_yellow:
  "\<not> emergencyMode (system c) \<Longrightarrow> find_green (lights (system c)) indices = Some g \<Longrightarrow>
   duration (lights (system c) g) \<le>s elapsed_since now (lastChange c) \<Longrightarrow>
   controlLights now c = \<lparr>system = to_yellow g (system c), lastChange = now\<rparr>"
  by (simp add: controlLights_def Let_def to_yellow_def find_green_Some)

text \<open>
  With no green light the source always takes the branch "Switch to NORTH-SOUTH": the
  branch "Switch to EAST-WEST" needs \<open>activeGreen\<close> to be \<open>NORTH\<close> or \<open>SOUTH\<close>, and
  then the light is green and the function has returned after the switch to yellow.
\<close>

lemma controlLights_start:
  "\<not> emergencyMode (system c) \<Longrightarrow> find_green (lights (system c)) indices = None \<Longrightarrow>
   controlLights now c = \<lparr>system = adjustTiming (to_ns_green (system c)), lastChange = now\<rparr>"
  by (simp add: controlLights_def Let_def to_ns_green_def)

lemma controlLights_cases [case_names emergency hold yellow start]:
  obtains
    "emergencyMode (system c)" "controlLights now c = c\<lparr>system := force_ns (system c)\<rparr>"
  | g where "\<not> emergencyMode (system c)" "find_green (lights (system c)) indices = Some g"
      "elapsed_since now (lastChange c) <s duration (lights (system c) g)"
      "controlLights now c = c"
  | g where "\<not> emergencyMode (system c)" "find_green (lights (system c)) indices = Some g"
      "duration (lights (system c) g) \<le>s elapsed_since now (lastChange c)"
      "controlLights now c = \<lparr>system = to_yellow g (system c), lastChange = now\<rparr>"
  | "\<not> emergencyMode (system c)" "find_green (lights (system c)) indices = None"
      "controlLights now c =
         \<lparr>system = adjustTiming (to_ns_green (system c)), lastChange = now\<rparr>"
proof (cases "emergencyMode (system c)")
  case True
  then show ?thesis using that(1) controlLights_emergency by blast
next
  case noem: False
  show ?thesis
  proof (cases "find_green (lights (system c)) indices")
    case None
    then show ?thesis using noem that(4) controlLights_start by blast
  next
    case (Some g)
    show ?thesis
    proof (cases "elapsed_since now (lastChange c) <s duration (lights (system c) g)")
      case True
      then show ?thesis using noem Some that(2) controlLights_hold by blast
    next
      case False
      then have "duration (lights (system c) g) \<le>s elapsed_since now (lastChange c)"
        by (simp add: signed.not_less)
      then show ?thesis using noem Some that(3) controlLights_yellow by blast
    qed
  qed
qed

lemma force_ns_fields:
  "sensors (force_ns s) = sensors s"
  "greenDuration (force_ns s) = greenDuration s"
  "yellowDuration (force_ns s) = yellowDuration s"
  "minGreenTime (force_ns s) = minGreenTime s"
  "maxGreenTime (force_ns s) = maxGreenTime s"
  "emergencyMode (force_ns s) = emergencyMode s"
  "duration (lights (force_ns s) d) = duration (lights s d)"
  "direction (lights (force_ns s) d) = direction (lights s d)"
  by (simp_all add: force_ns_def indices_def set_state_fields)

lemma force_ns_state:
  "state (lights (force_ns s) d) = (if d = NORTH \<or> d = SOUTH then GREEN else RED)"
  by (cases d) (simp_all add: force_ns_def indices_def set_state_fields)

lemma to_yellow_fields:
  "sensors (to_yellow g s) = sensors s"
  "greenDuration (to_yellow g s) = greenDuration s"
  "yellowDuration (to_yellow g s) = yellowDuration s"
  "minGreenTime (to_yellow g s) = minGreenTime s"
  "maxGreenTime (to_yellow g s) = maxGreenTime s"
  "emergencyMode (to_yellow g s) = emergencyMode s"
  "duration (lights (to_yellow g s) d) = duration (lights s d)"
  "direction (lights (to_yellow g s) d) = direction (lights s d)"
  "state (lights (to_yellow g s) d) =
     (if d = g \<or> (g = NORTH \<and> d = SOUTH) then YELLOW else state (lights s d))"
  by (simp_all add: to_yellow_def set_state_fields)

lemma to_ns_green_fields:
  "sensors (to_ns_green s) = sensors s"
  "greenDuration (to_ns_green s) = greenDuration s"
  "yellowDuration (to_ns_green s) = yellowDuration s"
  "minGreenTime (to_ns_green s) = minGreenTime s"
  "maxGreenTime (to_ns_green s) = maxGreenTime s"
  "emergencyMode (to_ns_green s) = emergencyMode s"
  "duration (lights (to_ns_green s) d) = duration (lights s d)"
  "direction (lights (to_ns_green s) d) = direction (lights s d)"
  "state (lights (to_ns_green s) d) = (if d = NORTH \<or> d = SOUTH then GREEN else RED)"
  by (cases d; simp add: to_ns_green_def set_state_fields)+

lemma TrafficLight_eqI:
  "state a = state b \<Longrightarrow> duration a = duration b \<Longrightarrow> direction a = direction b \<Longrightarrow>
   (a::TrafficLight) = b"
  by simp

lemma TrafficSystem_eqI:
  "(\<And>d. lights a d = lights b d) \<Longrightarrow> sensors a = sensors b \<Longrightarrow>
   greenDuration a = greenDuration b \<Longrightarrow> yellowDuration a = yellowDuration b \<Longrightarrow>
   minGreenTime a = minGreenTime b \<Longrightarrow> maxGreenTime a = maxGreenTime b \<Longrightarrow>
   emergencyMode a = emergencyMode b \<Longrightarrow> (a::TrafficSystem) = b"
  by (simp add: fun_eq_iff)

lemma force_ns_idem: "force_ns (force_ns s) = force_ns s"
  by (rule TrafficSystem_eqI) (simp_all add: force_ns_fields force_ns_state TrafficLight_eqI)

lemma initializeSystem_config:
  "greenDuration (initializeSystem s) = 30"
  "yellowDuration (initializeSystem s) = 5"
  "minGreenTime (initializeSystem s) = 10"
  "maxGreenTime (initializeSystem s) = 60"
  "emergencyMode (initializeSystem s) = False"
  by (simp_all add: initializeSystem_def Let_def)

lemma initializeSystem_lights:
  "lights (initializeSystem s) d = \<lparr>state = RED, duration = 0, direction = d\<rparr>"
  by (cases d)
    (simp_all add: initializeSystem_def Let_def indices_def init_light_def init_sensor_def)

lemma initializeSystem_sensors:
  "sensors (initializeSystem s) d =
     \<lparr>vehicleDetected = False, sensor_direction = d, detectionTime = 0\<rparr>"
  by (cases d)
    (simp_all add: initializeSystem_def Let_def indices_def init_light_def init_sensor_def)

section \<open>The phase cycle\<close>

lemma ns_yellow_tick:
  assumes "\<not> emergencyMode (system c)"
    and "state (lights (system c) NORTH) = YELLOW"
    and "state (lights (system c) SOUTH) = YELLOW"
    and "state (lights (system c) EAST) = RED"
    and "state (lights (system c) WEST) = RED"
  shows "state (lights (system (controlLights now c)) d)
           = (if d = NORTH \<or> d = SOUTH then GREEN else RED)"
proof -
  have "find_green (lights (system c)) indices = None"
    using assms by (simp add: indices_def)
  from controlLights_start [OF assms(1) this] show ?thesis
    by (simp add: adjustTiming_fields to_ns_green_fields)
qed

text \<open>
  C1. The claim is that from NS\_YELLOW (North and South yellow, East and West red)
  the next tick goes to EW\_GREEN: North and South red, East and West green. The
  source does not: started on zeroed memory, the ticks at times 100 and 130 lead to
  NS\_YELLOW with the emergency flag off, and the tick at time 131 makes North and
  South green again and leaves East and West red. (\<open>ns_yellow_tick\<close> above shows the
  same from every NS\_YELLOW state.)
\<close>

theorem ns_yellow_returns_to_ns_green:
  "state (lights (system (run zero_memory [Tick 100, Tick 130])) NORTH) = YELLOW
   \<and> state (lights (system (run zero_memory [Tick 100, Tick 130])) SOUTH) = YELLOW
   \<and> state (lights (system (run zero_memory [Tick 100, Tick 130])) EAST) = RED
   \<and> state (lights (system (run zero_memory [Tick 100, Tick 130])) WEST) = RED
   \<and> emergencyMode (system (run zero_memory [Tick 100, Tick 130])) = False
   \<and> state (lights (system (run zero_memory [Tick 100, Tick 130, Tick 131])) NORTH) = GREEN
   \<and> state (lights (system (run zero_memory [Tick 100, Tick 130, Tick 131])) SOUTH) = GREEN
   \<and> state (lights (system (run zero_memory [Tick 100, Tick 130, Tick 131])) EAST) = RED
   \<and> state (lights (system (run zero_memory [Tick 100, Tick 130, Tick 131])) WEST) = RED"
  by code_simp

lemma ew_green_tick:
  assumes "\<not> emergencyMode (system c)"
    and "state (lights (system c) NORTH) \<noteq> GREEN"
    and "state (lights (system c) SOUTH) \<noteq> GREEN"
    and "state (lights (system c) EAST) = GREEN"
    and "state (lights (system c) WEST) = GREEN"
    and "duration (lights (system c) EAST) \<le>s elapsed_since now (lastChange c)"
  shows "state (lights (system (controlLights now c)) EAST) = YELLOW
       \<and> state (lights (system (controlLights now c)) WEST) = GREEN
       \<and> lastChange (controlLights now c) = now"
proof -
  have "find_green (lights (system c)) indices = Some EAST"
    using assms by (simp add: indices_def)
  from controlLights_yellow [OF assms(1) this assms(6)] show ?thesis
    using assms(5) by (simp add: to_yellow_fields)
qed

text \<open>
  C3. The claim is that from EW\_GREEN with the East/West duration elapsed, a tick
  without emergency turns both East and West yellow and resets the last change. The
  source turns East yellow, resets the last change and leaves West green: in the state
  \<open>ew_green_example\<close> (East and West green, North and South red, durations 30, last
  change at 100) the tick at time 130 gives East yellow and West green.
  (\<open>ew_green_tick\<close> above shows the same from every such state.)
\<close>

theorem ew_green_leaves_west_green:
  "state (lights (system ew_green_example) NORTH) = RED
   \<and> state (lights (system ew_green_example) SOUTH) = RED
   \<and> state (lights (system ew_green_example) EAST) = GREEN
   \<and> state (lights (system ew_green_example) WEST) = GREEN
   \<and> emergencyMode (system ew_green_example) = False
   \<and> duration (lights (system ew_green_example) EAST)
        \<le>s elapsed_since 130 (lastChange ew_green_example)
   \<and> state (lights (system (controlLights 130 ew_green_example)) EAST) = YELLOW
   \<and> state (lights (system (controlLights 130 ew_green_example)) WEST) = GREEN
   \<and> lastChange (controlLights 130 ew_green_example) = 130"
  by code_simp

section \<open>Invariants of every run\<close>

lemma find_green_ns_cycle:
  "ns_cycle s \<Longrightarrow> find_green (lights s) indices = Some g \<Longrightarrow> g = NORTH"
  by (auto simp: ns_cycle_def indices_def split: if_splits)

lemma ns_cycle_controlLights:
  assumes "ns_cycle (system c)"
  shows "ns_cycle (system (controlLights now c))"
proof (cases rule: controlLights_cases [of c now])
  case emergency
  then show ?thesis by (simp add: ns_cycle_def force_ns_state)
next
  case (hold g)
  then show ?thesis using assms by simp
next
  case (yellow g)
  from find_green_ns_cycle [OF assms yellow(2)] have "g = NORTH" .
  then show ?thesis using assms yellow by (simp add: ns_cycle_def to_yellow_fields)
next
  case start
  then show ?thesis by (simp add: ns_cycle_def adjustTiming_fields to_ns_green_fields)
qed

lemma ns_cycle_step: "ns_cycle (system c) \<Longrightarrow> ns_cycle (system (step e c))"
  by (cases e)
    (simp_all add: ns_cycle_controlLights, simp_all add: ns_cycle_def updateSensors_def Let_def)

lemma ns_cycle_fold: "ns_cycle (system c) \<Longrightarrow> ns_cycle (system (fold step evs c))"
  by (induction evs arbitrary: c) (simp_all add: ns_cycle_step)

lemma ns_cycle_run: "ns_cycle (system (run mem evs))"
  unfolding run_def
  by (rule ns_cycle_fold) (simp add: startup_def ns_cycle_def initializeSystem_lights)

text \<open>
  C2. In every state reached from start-up by any sequence of controller ticks, sensor
  updates and writes of the emergency flag, at any times and whatever the memory held
  before \<open>initializeSystem\<close>, North and South have the same light state and East and
  West have the same light state.
\<close>

theorem axes_share_state:
  "state (lights (system (run mem evs)) NORTH) = state (lights (system (run mem evs)) SOUTH)
   \<and> state (lights (system (run mem evs)) EAST) = state (lights (system (run mem evs)) WEST)"
  using ns_cycle_run [of mem evs] by (simp add: ns_cycle_def)

theorem axes_share_state_witness:
  "state (lights (system (run zero_memory [Tick 100, Tick 130])) NORTH)
     = state (lights (system (run zero_memory [Tick 100, Tick 130])) SOUTH)
   \<and> state (lights (system (run zero_memory [Tick 100, Tick 130])) EAST)
     = state (lights (system (run zero_memory [Tick 100, Tick 130])) WEST)
   \<and> state (lights (system (run zero_memory [Tick 100, Tick 130])) NORTH) = YELLOW
   \<and> state (lights (system (run zero_memory [Tick 100, Tick 130])) EAST) = RED"
proof -
  have "state (lights (system (run zero_memory [Tick 100, Tick 130])) NORTH) = YELLOW"
    "state (lights (system (run zero_memory [Tick 100, Tick 130])) EAST) = RED"
    by code_simp+
  then show ?thesis
    using axes_share_state [of zero_memory "[Tick 100, Tick 130]"] by simp
qed

lemma assigned_paired:
  "assigned s NORTH = assigned s SOUTH" "assigned s EAST = assigned s WEST"
  by (simp_all add: assigned_def)

lemma durations_paired_adjustTiming: "durations_paired (adjustTiming s)"
  by (simp add: durations_paired_def adjustTiming_duration assigned_paired)

lemma durations_paired_controlLights:
  assumes "durations_paired (system c)"
  shows "durations_paired (system (controlLights now c))"
proof (cases rule: controlLights_cases [of c now])
  case emergency
  then show ?thesis using assms by (simp add: durations_paired_def force_ns_fields)
next
  case (hold g)
  then show ?thesis using assms by simp
next
  case (yellow g)
  then show ?thesis using assms by (simp add: durations_paired_def to_yellow_fields)
next
  case start
  then show ?thesis by (simp add: durations_paired_adjustTiming)
qed

lemma durations_paired_step:
  "durations_paired (system c) \<Longrightarrow> durations_paired (system (step e c))"
  by (cases e)
    (simp_all add: durations_paired_controlLights,
     simp_all add: durations_paired_def updateSensors_def Let_def)

lemma durations_paired_fold:
  "durations_paired (system c) \<Longrightarrow> durations_paired (system (fold step evs c))"
  by (induction evs arbitrary: c) (simp_all add: durations_paired_step)

text \<open>
  C10. After \<open>initializeSystem\<close> and after every later controller tick (with sensor
  updates and writes of the emergency flag in between, in any order), the duration of
  North equals that of South and the duration of East equals that of West.
\<close>

theorem durations_paired_run:
  "duration (lights (system (run mem evs)) NORTH)
     = duration (lights (system (run mem evs)) SOUTH)
   \<and> duration (lights (system (run mem evs)) EAST)
     = duration (lights (system (run mem evs)) WEST)"
proof -
  have "durations_paired (system (startup mem))"
    by (simp add: startup_def durations_paired_def initializeSystem_lights)
  then have "durations_paired (system (run mem evs))"
    unfolding run_def by (rule durations_paired_fold)
  then show ?thesis by (simp add: durations_paired_def)
qed

theorem durations_paired_run_witness:
  "duration (lights (system (run zero_memory
      [Sensor 7 NORTH True, Sensor 7 SOUTH True, Tick 100])) NORTH)
     = duration (lights (system (run zero_memory
      [Sensor 7 NORTH True, Sensor 7 SOUTH True, Tick 100])) SOUTH)
   \<and> duration (lights (system (run zero_memory
      [Sensor 7 NORTH True, Sensor 7 SOUTH True, Tick 100])) EAST)
     = duration (lights (system (run zero_memory
      [Sensor 7 NORTH True, Sensor 7 SOUTH True, Tick 100])) WEST)
   \<and> duration (lights (system (run zero_memory
      [Sensor 7 NORTH True, Sensor 7 SOUTH True, Tick 100])) NORTH) = 45
   \<and> duration (lights (system (run zero_memory
      [Sensor 7 NORTH True, Sensor 7 SOUTH True, Tick 100])) EAST) = 20"
proof -
  have "duration (lights (system (run zero_memory
          [Sensor 7 NORTH True, Sensor 7 SOUTH True, Tick 100])) NORTH) = 45"
    "duration (lights (system (run zero_memory
          [Sensor 7 NORTH True, Sensor 7 SOUTH True, Tick 100])) EAST) = 20"
    by code_simp+
  then show ?thesis
    using durations_paired_run
      [of zero_memory "[Sensor 7 NORTH True, Sensor 7 SOUTH True, Tick 100]"]
    by simp
qed

section \<open>The configuration\<close>

lemma controlLights_config:
  "greenDuration (system (controlLights now c)) = greenDuration (system c)"
  "yellowDuration (system (controlLights now c)) = yellowDuration (system c)"
  "minGreenTime (system (controlLights now c)) = minGreenTime (system c)"
  "maxGreenTime (system (controlLights now c)) = maxGreenTime (system c)"
  by (cases rule: controlLights_cases [of c now];
      simp add: force_ns_fields to_yellow_fields adjustTiming_fields to_ns_green_fields)+

lemma default_config_step:
  "default_config (system c) \<Longrightarrow> default_config (system (step e c))"
  by (cases e)
    (simp_all add: default_config_def controlLights_config updateSensors_def Let_def)

lemma default_config_fold:
  "default_config (system c) \<Longrightarrow> default_config (system (fold step evs c))"
  by (induction evs arbitrary: c) (simp_all add: default_config_step)

lemma default_config_valid: "default_config s \<Longrightarrow> config_valid s"
  by (simp add: default_config_def config_valid_def word_sless_alt word_sle_eq)

text \<open>
  C8, as the claim states it, fails: nothing in the source checks a configuration.
  With \<open>minGreenTime = 50\<close> above \<open>greenDuration = 30\<close> the configuration of
  \<open>bad_config\<close> violates the invariant, and \<open>controlLights\<close> still runs on it: it
  switches North to green and plans the duration 50 for it.
\<close>

theorem invalid_configuration_accepted:
  "\<not> config_valid (system bad_config)
   \<and> state (lights (system (controlLights 100 bad_config)) NORTH) = GREEN
   \<and> duration (lights (system (controlLights 100 bad_config)) NORTH) = 50"
  by code_simp

text \<open>
  C8, amended. The source takes no configuration as input and has no error outcome:
  \<open>initializeSystem\<close> writes the fixed values base 30, yellow 5, minimum 10 and
  maximum 60, which satisfy \<open>0 < min \<le> base \<le> max\<close>, and no controller tick, sensor
  update or write of the emergency flag changes them. So in every state reached from
  start-up the configuration is these four values and is valid.
\<close>

theorem configuration_fixed_and_valid:
  "greenDuration (system (run mem evs)) = 30
   \<and> yellowDuration (system (run mem evs)) = 5
   \<and> minGreenTime (system (run mem evs)) = 10
   \<and> maxGreenTime (system (run mem evs)) = 60
   \<and> config_valid (system (run mem evs))"
proof -
  have "default_config (system (startup mem))"
    by (simp add: startup_def default_config_def initializeSystem_config)
  then have d: "default_config (system (run mem evs))"
    unfolding run_def by (rule default_config_fold)
  from d default_config_valid [OF d] show ?thesis by (simp add: default_config_def)
qed

theorem configuration_fixed_and_valid_witness:
  "greenDuration (system (run zero_memory [Emergency True, Tick 100])) = 30
   \<and> minGreenTime (system (run zero_memory [Emergency True, Tick 100])) = 10
   \<and> maxGreenTime (system (run zero_memory [Emergency True, Tick 100])) = 60
   \<and> config_valid (system (run zero_memory [Emergency True, Tick 100]))"
  using configuration_fixed_and_valid [of zero_memory "[Emergency True, Tick 100]"] by simp

section \<open>The emergency override\<close>

lemma emergency_fixed:
  assumes "emergencyMode (system c)"
  shows "controlLights t (controlLights now c) = controlLights now c"
proof -
  have 1: "controlLights now c = c\<lparr>system := force_ns (system c)\<rparr>"
    by (rule controlLights_emergency [OF assms])
  have "emergencyMode (system (c\<lparr>system := force_ns (system c)\<rparr>))"
    using assms by (simp add: force_ns_fields)
  from controlLights_emergency [OF this, of t] show ?thesis
    unfolding 1 by (simp add: force_ns_idem)
qed

lemma emergency_fold:
  assumes "emergencyMode (system c)"
  shows "fold controlLights ticks (controlLights now c) = controlLights now c"
  by (induction ticks) (simp_all add: emergency_fixed [OF assms])

text \<open>
  C4. When the emergency flag is set, one controller tick makes North and South green
  and East and West red, whatever the lights were and whatever the time is; the
  durations, the last-change time and the flag are untouched, and any number of
  further ticks at any times, with the flag still set, leave this state as it is: no
  transition of the normal cycle happens.
\<close>

theorem emergency_override:
  assumes "emergencyMode (system c)"
  shows "state (lights (system (controlLights now c)) NORTH) = GREEN
       \<and> state (lights (system (controlLights now c)) SOUTH) = GREEN
       \<and> state (lights (system (controlLights now c)) EAST) = RED
       \<and> state (lights (system (controlLights now c)) WEST) = RED
       \<and> (\<forall>d. duration (lights (system (controlLights now c)) d)
                = duration (lights (system c) d))
       \<and> lastChange (controlLights now c) = lastChange c
       \<and> emergencyMode (system (controlLights now c))
       \<and> fold controlLights ticks (controlLights now c) = controlLights now c"
  using assms emergency_fold [OF assms, of ticks now]
  by (simp add: controlLights_emergency [OF assms] force_ns_state force_ns_fields)

theorem emergency_override_witness:
  "emergencyMode (system emergency_example)
   \<and> state (lights (system emergency_example) EAST) = GREEN
   \<and> state (lights (system (controlLights 101 emergency_example)) NORTH) = GREEN
   \<and> state (lights (system (controlLights 101 emergency_example)) SOUTH) = GREEN
   \<and> state (lights (system (controlLights 101 emergency_example)) EAST) = RED
   \<and> state (lights (system (controlLights 101 emergency_example)) WEST) = RED
   \<and> lastChange (controlLights 101 emergency_example) = lastChange emergency_example
   \<and> fold controlLights [200, 300] (controlLights 101 emergency_example)
       = controlLights 101 emergency_example"
proof -
  have h: "emergencyMode (system emergency_example)"
    by (simp add: emergency_example_def)
  have e: "state (lights (system emergency_example) EAST) = GREEN"
    by (simp add: emergency_example_def ew_green_example_def)
  show ?thesis
    using h e emergency_override [OF h, of 101 "[200, 300]"] by simp
qed

text \<open>
  C5, as the claim states it, fails. Started on zeroed memory, with the emergency flag
  set, a tick at 100, the flag cleared and a tick at 101, North and South are yellow,
  not green, and the duration of North is still 0 where the timing policy gives 30.
\<close>

theorem emergency_exit_counterexample:
  "state (lights (system (run zero_memory
      [Emergency True, Tick 100, Emergency False, Tick 101])) NORTH) = YELLOW
   \<and> state (lights (system (run zero_memory
      [Emergency True, Tick 100, Emergency False, Tick 101])) SOUTH) = YELLOW
   \<and> duration (lights (system (run zero_memory
      [Emergency True, Tick 100, Emergency False, Tick 101])) NORTH) = 0
   \<and> duration (lights (adjustTiming (system (run zero_memory
      [Emergency True, Tick 100, Emergency False, Tick 101]))) NORTH) = 30"
  by code_simp

text \<open>
  A second run: the emergency ends before the green time of North/South has elapsed.
  The lights stay as the override left them, the durations are the old ones (30,
  where the policy on the current sensors gives 45) and the last change is still 100.
\<close>

lemma emergency_exit_keeps_bookkeeping:
  "state (lights (system (run zero_memory
      [Tick 100, Sensor 105 NORTH True, Sensor 105 SOUTH True,
       Emergency True, Tick 110, Emergency False, Tick 111])) NORTH) = GREEN
   \<and> duration (lights (system (run zero_memory
      [Tick 100, Sensor 105 NORTH True, Sensor 105 SOUTH True,
       Emergency True, Tick 110, Emergency False, Tick 111])) NORTH) = 30
   \<and> duration (lights (adjustTiming (system (run zero_memory
      [Tick 100, Sensor 105 NORTH True, Sensor 105 SOUTH True,
       Emergency True, Tick 110, Emergency False, Tick 111]))) NORTH) = 45
   \<and> lastChange (run zero_memory
      [Tick 100, Sensor 105 NORTH True, Sensor 105 SOUTH True,
       Emergency True, Tick 110, Emergency False, Tick 111]) = 100"
  by code_simp

text \<open>
  C5, amended. After a tick with the emergency flag set (at time \<open>t1\<close>) and the
  clearing of the flag, the next tick (at time \<open>t2\<close>) applies the normal rule to the
  lights the override left, North being the green light found. If the time elapsed
  since the last change recorded before the emergency is below the duration of North,
  nothing changes: North and South stay green and the last change keeps its value.
  Otherwise North and South turn yellow and the last change becomes \<open>t2\<close>. In both
  cases East and West are red and every duration is the one from before the
  emergency: the timing policy is not run.
\<close>

theorem after_emergency:
  assumes "emergencyMode (system c)"
  shows "(let c' = fold step [Tick t1, Emergency False, Tick t2] c;
              held = elapsed_since t2 (lastChange c) <s duration (lights (system c) NORTH)
          in state (lights (system c') NORTH) = (if held then GREEN else YELLOW)
           \<and> state (lights (system c') SOUTH) = (if held then GREEN else YELLOW)
           \<and> state (lights (system c') EAST) = RED
           \<and> state (lights (system c') WEST) = RED
           \<and> (\<forall>d. duration (lights (system c') d) = duration (lights (system c) d))
           \<and> lastChange c' = (if held then lastChange c else t2))"
proof -
  define c2 where
    "c2 = (controlLights t1 c)\<lparr>system := (system (controlLights t1 c))\<lparr>emergencyMode := False\<rparr>\<rparr>"
  have c2: "c2 = c\<lparr>system := (force_ns (system c))\<lparr>emergencyMode := False\<rparr>\<rparr>"
    by (simp add: c2_def controlLights_emergency [OF assms])
  have noem: "\<not> emergencyMode (system c2)" by (simp add: c2)
  have fg: "find_green (lights (system c2)) indices = Some NORTH"
    by (simp add: c2 indices_def force_ns_state)
  have dur: "duration (lights (system c2) d) = duration (lights (system c) d)" for d
    by (simp add: c2 force_ns_fields)
  have st: "state (lights (system c2) d) = (if d = NORTH \<or> d = SOUTH then GREEN else RED)"
    for d by (simp add: c2 force_ns_state)
  have lc: "lastChange c2 = lastChange c" by (simp add: c2)
  have f: "fold step [Tick t1, Emergency False, Tick t2] c = controlLights t2 c2"
    by (simp add: c2_def)
  show ?thesis
  proof (cases "elapsed_since t2 (lastChange c) <s duration (lights (system c) NORTH)")
    case True
    then have "controlLights t2 c2 = c2"
      using controlLights_hold [OF noem fg, of t2] by (simp add: lc dur)
    then show ?thesis unfolding f Let_def using True by (simp add: st dur lc)
  next
    case False
    then have "duration (lights (system c2) NORTH) \<le>s elapsed_since t2 (lastChange c2)"
      by (simp add: lc dur signed.not_less)
    from controlLights_yellow [OF noem fg this]
    show ?thesis unfolding f Let_def using False by (simp add: to_yellow_fields st dur)
  qed
qed

theorem after_emergency_witness:
  "emergencyMode (system emergency_example)
   \<and> state (lights (system
        (fold step [Tick 105, Emergency False, Tick 110] emergency_example)) NORTH) = GREEN
   \<and> state (lights (system
        (fold step [Tick 105, Emergency False, Tick 110] emergency_example)) EAST) = RED
   \<and> duration (lights (system
        (fold step [Tick 105, Emergency False, Tick 110] emergency_example)) NORTH) = 30
   \<and> lastChange (fold step [Tick 105, Emergency False, Tick 110] emergency_example) = 100"
proof -
  have h: "emergencyMode (system emergency_example)"
    by (simp add: emergency_example_def)
  have v: "elapsed_since 110 (lastChange emergency_example)
             <s duration (lights (system emergency_example) NORTH)"
    "duration (lights (system emergency_example) NORTH) = 30"
    "lastChange emergency_example = 100"
    by (simp_all add: emergency_example_def ew_green_example_def elapsed_since_def
        word_sless_alt)
  show ?thesis
    using h v after_emergency [OF h, of 105 110] by (simp add: Let_def)
qed

section \<open>Two ticks in the same instant\<close>

lemma limit_positive: "0 <s lo \<Longrightarrow> 0 <s hi \<Longrightarrow> 0 <s limit lo hi x"
  by (auto simp: limit_def Let_def word_sless_alt)

lemma elapsed_since_same: "elapsed_since now now = 0"
  by (simp add: elapsed_since_def)

text \<open>
  C7, as the claim states it, fails. After start-up on zeroed memory and a tick at
  time 100, North and South are green with duration 30. A tick at time 130 turns them
  yellow; a second tick at the same time 130 turns them green again.
\<close>

theorem same_instant_counterexample:
  "controlLights 130 (controlLights 130 (run zero_memory [Tick 100]))
     \<noteq> controlLights 130 (run zero_memory [Tick 100])"
proof
  assume eq: "controlLights 130 (controlLights 130 (run zero_memory [Tick 100]))
     = controlLights 130 (run zero_memory [Tick 100])"
  have "state (lights (system
          (controlLights 130 (controlLights 130 (run zero_memory [Tick 100])))) NORTH) = GREEN"
    by code_simp
  moreover have "state (lights (system
          (controlLights 130 (run zero_memory [Tick 100]))) NORTH) = YELLOW"
    by code_simp
  ultimately show False using eq by simp
qed

text \<open>
  C7, amended. A second call of \<open>controlLights\<close> at the same time changes nothing in
  each of these cases: the emergency flag is set; or the first call finds a green
  light whose duration has not elapsed (and so does nothing); or the first call finds
  no green light and the minimum and maximum green times are positive (it switches
  North and South to green with a positive duration, and the second call sees an
  elapsed time of 0). The remaining case, a first call that switches a green light to
  yellow, is left out.
\<close>

theorem controlLights_same_instant:
  assumes "emergencyMode (system c)
           \<or> (case find_green (lights (system c)) indices of
                None \<Rightarrow> 0 <s minGreenTime (system c) \<and> 0 <s maxGreenTime (system c)
              | Some g \<Rightarrow> elapsed_since now (lastChange c) <s duration (lights (system c) g))"
  shows "controlLights now (controlLights now c) = controlLights now c"
proof (cases rule: controlLights_cases [of c now])
  case emergency
  show ?thesis by (rule emergency_fixed [OF emergency(1)])
next
  case (hold g)
  then show ?thesis by simp
next
  case (yellow g)
  then have False using assms by (simp add: signed.not_less [symmetric])
  then show ?thesis ..
next
  case start
  let ?c1 = "\<lparr>system = adjustTiming (to_ns_green (system c)), lastChange = now\<rparr>"
  from start assms have pos: "0 <s minGreenTime (system c)" "0 <s maxGreenTime (system c)"
    by simp_all
  have noem: "\<not> emergencyMode (system ?c1)"
    using start(1) by (simp add: adjustTiming_fields to_ns_green_fields)
  have fg: "find_green (lights (system ?c1)) indices = Some NORTH"
    by (simp add: indices_def adjustTiming_fields to_ns_green_fields)
  have "elapsed_since now (lastChange ?c1) <s duration (lights (system ?c1) NORTH)"
    using pos
    by (simp add: elapsed_since_same adjustTiming_duration to_ns_green_fields limit_positive)
  from controlLights_hold [OF noem fg this] show ?thesis
    by (simp add: start(3))
qed

theorem controlLights_same_instant_witness:
  "find_green (lights (system (startup zero_memory))) indices = None
   \<and> 0 <s minGreenTime (system (startup zero_memory))
   \<and> 0 <s maxGreenTime (system (startup zero_memory))
   \<and> controlLights 100 (controlLights 100 (startup zero_memory))
       = controlLights 100 (startup zero_memory)"
proof -
  have h: "find_green (lights (system (startup zero_memory))) indices = None"
    "0 <s minGreenTime (system (startup zero_memory))"
    "0 <s maxGreenTime (system (startup zero_memory))"
    by (simp_all add: startup_def initializeSystem_config initializeSystem_lights
        indices_def word_sless_alt)
  then have "emergencyMode (system (startup zero_memory))
           \<or> (case find_green (lights (system (startup zero_memory))) indices of
                None \<Rightarrow> 0 <s minGreenTime (system (startup zero_memory))
                        \<and> 0 <s maxGreenTime (system (startup zero_memory))
              | Some g \<Rightarrow> elapsed_since 100 (lastChange (startup zero_memory))
                           <s duration (lights (system (startup zero_memory)) g))"
    by simp
  from controlLights_same_instant [OF this] h show ?thesis by simp
qed

end
